theory Spec2Isabelle
  imports Main "HOL-Library.Sublist"
begin

section \<open>Data model\<close>

text \<open>
  A value as \<open>JSON.parse\<close> produces it and as the request body carries it. Numbers are
  the integers of the data model (\<open>id\<close> and \<open>position\<close> are integers); an object is the
  association list of its own properties. A property that is not there (\<open>undefined\<close>)
  is \<open>None\<close> wherever a \<open>json option\<close> is read.
\<close>

datatype json =
    JNull
  | JBool bool
  | JNum int
  | JStr string
  | JArr "json list"
  | JObj "(string \<times> json) list"

text \<open>A row of the \<open>todos\<close> table: \<open>{id, task, done}\<close>.\<close>

record todo =
  todo_id :: int
  todo_task :: string
  todo_done :: bool

text \<open>
  The calls that leave the process: the four queries on the table and the request to
  the text-generation service (with the prompt it embeds).
\<close>

datatype call =
    StoreInsert json
  | StoreSelect
  | StoreUpdate "int option" "json option"
  | StoreDelete "int option"
  | Generate json

text \<open>
  The world outside the handlers: the table in the order the store returns it, the next
  id the store assigns, what the backend answers to the coming calls (\<open>Some msg\<close>: the
  call fails with that message; an exhausted list: every further call is served), the
  calls made so far, and what the runtime's \<open>String.prototype.toLowerCase\<close> returns for
  each text: a built-in that is not part of the source, taken as it is given.
\<close>

record world =
  rows :: "todo list"
  next_id :: int
  faults :: "string option list"
  calls :: "call list"
  toLowerCase :: "string \<Rightarrow> string"

text \<open>The \<open>{data, error}\<close> pair a query resolves to.\<close>

datatype 'a answer = Failed string | Data 'a

text \<open>What \<open>res.json\<close> is given: \<open>{error: ...}\<close>, a row, a list of rows, or \<open>undefined\<close>.\<close>

datatype message =
    Msg string
  | NoTaskAtPosition int      \<comment> \<open>\<open>No task found at position ${parsed.position}\<close>\<close>
  | NoTaskMatching string     \<comment> \<open>\<open>No task found matching "${parsed.task}"\<close>\<close>

datatype payload = Error message | Rec todo | Recs "todo list" | Undefined

text \<open>
  A handler either answers (\<open>res.status(n).json(b)\<close>) or its promise rejects with an
  error nobody catches.
\<close>

datatype outcome = Response nat payload | Throws string

text \<open>\<open>req.params.id\<close> (the integer the route segment or the intent denotes) and \<open>req.body\<close>.\<close>

record request =
  params_id :: "int option"
  body :: "string \<rightharpoonup> json"

text \<open>What \<open>fetch\<close> and \<open>response.json()\<close> give for the text-generation request.\<close>

datatype gemini_reply =
    FetchThrows
  | DataError string            \<comment> \<open>\<open>data.error.message\<close>\<close>
  | Candidates "string option"  \<comment> \<open>\<open>data.candidates?.[0]?.content?.parts?.[0]?.text\<close>\<close>

section \<open>JavaScript values and strings\<close>

text \<open>\<open>!v\<close> is \<open>\<not> truthy v\<close>.\<close>

fun truthy :: "json option \<Rightarrow> bool" where
  "truthy None = False"
| "truthy (Some JNull) = False"
| "truthy (Some (JBool b)) = b"
| "truthy (Some (JNum n)) = (n \<noteq> 0)"
| "truthy (Some (JStr s)) = (s \<noteq> [])"
| "truthy (Some (JArr xs)) = True"
| "truthy (Some (JObj kvs)) = True"

text \<open>
  \<open>parsed.k\<close> for the keys the handlers read (\<open>intent\<close>, \<open>id\<close>, \<open>position\<close>, \<open>task\<close>,
  \<open>newTask\<close>, \<open>done\<close>): a property of an object, \<open>undefined\<close> on every other value but
  \<open>null\<close>, where the read throws (the caller tests for \<open>JNull\<close> first).
\<close>

fun field :: "json \<Rightarrow> string \<Rightarrow> json option" where
  "field (JObj kvs) k = map_of kvs k"
| "field _ k = None"

text \<open>
  A string is the list of its bytes: an ASCII character is one byte, any other
  character the bytes of its UTF-8 encoding (one text occurs in another as bytes exactly
  when it does as characters). White space is what \<open>trim\<close> and \<open>\s\<close> take from ASCII
  text: tab, line feed, vertical tab, form feed, carriage return and space.
\<close>

definition is_space :: "char \<Rightarrow> bool" where
  "is_space c = (c \<in> set [CHR 0x09, CHR 0x0A, CHR 0x0B, CHR 0x0C, CHR 0x0D, CHR 0x20])"

definition trim :: "string \<Rightarrow> string" where
  "trim s = rev (dropWhile is_space (rev (dropWhile is_space s)))"

text \<open>\<open>s.includes(sub)\<close>: \<open>sub\<close> occurs in \<open>s\<close> at some offset.\<close>

fun includes_str :: "string \<Rightarrow> string \<Rightarrow> bool" where
  "includes_str [] sub = (sub = [])"
| "includes_str (c # cs) sub = (prefix sub (c # cs) \<or> includes_str cs sub)"

section \<open>The store\<close>

text \<open>
  Modelled from the spec: the Store is an external collaborator (a hosted table behind
  a query client), "a persistent table of todo records, queried/mutated through insert,
  select-all, update-by-id, delete-by-id operations"; a record is
  "{ id: integer (assigned by store, unique, stable), task: text (non-empty), done:
  boolean (default false) }". Every call is recorded and takes the backend's next
  answer; a value that is not of the column's type is answered with an error; a patch
  with no column (\<open>{done: undefined}\<close> serialises to \<open>{}\<close>) changes no row and
  reports none. An update or a delete reports the rows it matched.
\<close>

definition backend :: "call \<Rightarrow> world \<Rightarrow> string option \<times> world" where
  "backend c w =
     (case faults w of
        [] \<Rightarrow> (None, w\<lparr>calls := calls w @ [c]\<rparr>)
      | f # fs \<Rightarrow> (f, w\<lparr>faults := fs, calls := calls w @ [c]\<rparr>))"

definition store_insert :: "json \<Rightarrow> world \<Rightarrow> todo list answer \<times> world" where
  "store_insert v w =
     (case backend (StoreInsert v) w of
        (Some e, w1) \<Rightarrow> (Failed e, w1)
      | (None, w1) \<Rightarrow>
          (case v of
             JStr t \<Rightarrow>
               (let r = \<lparr>todo_id = next_id w1, todo_task = t, todo_done = False\<rparr>
                in (Data [r], w1\<lparr>rows := rows w1 @ [r], next_id := next_id w1 + 1\<rparr>))
           | _ \<Rightarrow> (Failed ''invalid input value'', w1)))"

definition store_select :: "world \<Rightarrow> todo list answer \<times> world" where
  "store_select w =
     (case backend StoreSelect w of
        (Some e, w1) \<Rightarrow> (Failed e, w1)
      | (None, w1) \<Rightarrow> (Data (rows w1), w1))"

definition store_update :: "int option \<Rightarrow> json option \<Rightarrow> world \<Rightarrow> todo list answer \<times> world" where
  "store_update i d w =
     (case backend (StoreUpdate i d) w of
        (Some e, w1) \<Rightarrow> (Failed e, w1)
      | (None, w1) \<Rightarrow>
          (case i of
             None \<Rightarrow> (Failed ''invalid input value'', w1)
           | Some n \<Rightarrow>
               (case d of
                  None \<Rightarrow> (Data [], w1)
                | Some (JBool b) \<Rightarrow>
                    (let rs = map (\<lambda>r. if todo_id r = n then r\<lparr>todo_done := b\<rparr> else r) (rows w1)
                     in (Data (filter (\<lambda>r. todo_id r = n) rs), w1\<lparr>rows := rs\<rparr>))
                | Some _ \<Rightarrow> (Failed ''invalid input value'', w1))))"

definition store_delete :: "int option \<Rightarrow> world \<Rightarrow> todo list answer \<times> world" where
  "store_delete i w =
     (case backend (StoreDelete i) w of
        (Some e, w1) \<Rightarrow> (Failed e, w1)
      | (None, w1) \<Rightarrow>
          (case i of
             None \<Rightarrow> (Failed ''invalid input value'', w1)
           | Some n \<Rightarrow>
               (Data (filter (\<lambda>r. todo_id r = n) (rows w1)),
                w1\<lparr>rows := filter (\<lambda>r. todo_id r \<noteq> n) (rows w1)\<rparr>)))"

text \<open>The backend serves the next call.\<close>

definition store_up :: "world \<Rightarrow> bool" where
  "store_up w = (case faults w of [] \<Rightarrow> True | f # fs \<Rightarrow> f = None)"

section \<open>CRUD handlers\<close>

definition CreateTodo :: "request \<Rightarrow> world \<Rightarrow> outcome \<times> world" where
  "CreateTodo req w =
     (case body req ''task'' of
        None \<Rightarrow> (Response 400 (Error (Msg ''Title and description are required'')), w)
      | Some task \<Rightarrow>
          if \<not> truthy (Some task)
          then (Response 400 (Error (Msg ''Title and description are required'')), w)
          else
            (case store_insert task w of
               (Failed e, w1) \<Rightarrow> (Response 500 (Error (Msg e)), w1)
             | (Data d, w1) \<Rightarrow>
                 (Response 201 (case d of [] \<Rightarrow> Undefined | r # _ \<Rightarrow> Rec r), w1)))"

text \<open>
  \<open>GetTodos(req, res)\<close> answers the request; \<open>GetTodos()\<close>, without \<open>res\<close>, returns the
  rows (\<open>Inr\<close>) or throws the store's error.
\<close>

definition GetTodos :: "bool \<Rightarrow> world \<Rightarrow> (outcome + todo list) \<times> world" where
  "GetTodos res w =
     (case store_select w of
        (Failed e, w1) \<Rightarrow>
          if res then (Inl (Response 500 (Error (Msg e))), w1) else (Inl (Throws e), w1)
      | (Data d, w1) \<Rightarrow>
          if res then (Inl (Response 200 (Recs d)), w1) else (Inr d, w1))"

definition UpdateTodo :: "request \<Rightarrow> world \<Rightarrow> outcome \<times> world" where
  "UpdateTodo req w =
     (let id' = params_id req;
          done = body req ''done''
      in case store_update id' done w of
           (Failed e, w1) \<Rightarrow> (Response 500 (Error (Msg e)), w1)
         | (Data d, w1) \<Rightarrow> (Response 200 (Recs d), w1))"

definition DeleteTodo :: "request \<Rightarrow> world \<Rightarrow> outcome \<times> world" where
  "DeleteTodo req w =
     (let id' = params_id req
      in case store_delete id' w of
           (Failed e, w1) \<Rightarrow> (Response 500 (Error (Msg e)), w1)
         | (Data d, w1) \<Rightarrow> (Response 200 (Recs d), w1))"

section \<open>Intent resolver\<close>

text \<open>
  \<open>cleanJsonString\<close>: \<open>/^```json\s*/\<close> takes the marker at the start and the white space
  after it, \<open>/```$/\<close> the marker at the very end.
\<close>

definition strip_fence_open :: "string \<Rightarrow> string" where
  "strip_fence_open s =
     (if prefix ''```json'' s then dropWhile is_space (drop 7 s) else s)"

definition strip_fence_close :: "string \<Rightarrow> string" where
  "strip_fence_close s = (if suffix ''```'' s then take (length s - 3) s else s)"

definition cleanJsonString :: "string \<Rightarrow> string" where
  "cleanJsonString str = trim (strip_fence_close (strip_fence_open (trim str)))"

text \<open>
  Lines 205 to 211 of \<open>findTodoIdByPosition\<close>, on the rows \<open>GetTodos()\<close> returned.
  Called without \<open>res\<close>, \<open>GetTodos\<close> returns or throws and never answers, so the last
  case of the two lookups below is not reached.
\<close>

definition idAtPosition :: "todo list \<Rightarrow> int \<Rightarrow> int option" where
  "idAtPosition todos position =
     (if length todos = 0 then None
      else
        (let index = (if position > 0 then position - 1 else int (length todos) + position)
         in if index < 0 \<or> index \<ge> int (length todos) then None
            else Some (todo_id (todos ! nat index))))"

definition findTodoIdByPosition :: "int \<Rightarrow> world \<Rightarrow> (string + int option) \<times> world" where
  "findTodoIdByPosition position w =
     (case GetTodos False w of
        (Inr todos, w1) \<Rightarrow> (Inr (idAtPosition todos position), w1)
      | (Inl (Throws e), w1) \<Rightarrow> (Inl e, w1)
      | (Inl (Response n b), w1) \<Rightarrow> (Inr None, w1))"

text \<open>
  Lines 217 to 221 of \<open>findTodoIdByPartialTaskName\<close>; \<open>lower\<close> is the \<open>toLowerCase\<close>
  of the runtime, which \<open>findTodoIdByPartialTaskName\<close> takes from the world.
\<close>

definition idByPartialTaskName :: "(string \<Rightarrow> string) \<Rightarrow> todo list \<Rightarrow> string \<Rightarrow> int option" where
  "idByPartialTaskName lower todos taskText =
     (if length todos = 0 then None
      else
        (let lowerTaskText = lower taskText
         in case find (\<lambda>t. includes_str (lower (todo_task t)) lowerTaskText) todos of
              Some todo \<Rightarrow> Some (todo_id todo)
            | None \<Rightarrow> None))"

definition findTodoIdByPartialTaskName :: "string \<Rightarrow> world \<Rightarrow> (string + int option) \<times> world" where
  "findTodoIdByPartialTaskName taskText w =
     (case GetTodos False w of
        (Inr todos, w1) \<Rightarrow> (Inr (idByPartialTaskName (toLowerCase w) todos taskText), w1)
      | (Inl (Throws e), w1) \<Rightarrow> (Inl e, w1)
      | (Inl (Response n b), w1) \<Rightarrow> (Inr None, w1))"

text \<open>\<open>!id\<close> on what a lookup returned: \<open>null\<close> and the id \<open>0\<close> are both falsy.\<close>

definition falsy_id :: "int option \<Rightarrow> bool" where
  "falsy_id r = (case r of None \<Rightarrow> True | Some i \<Rightarrow> i = 0)"

text \<open>
  The block each branch of \<open>handleUpdateIntent\<close> repeats: \<open>req.body.done\<close> takes a
  boolean \<open>parsed.done\<close>, \<open>req.body.task\<close> a truthy \<open>parsed.newTask\<close>.
\<close>

definition set_done :: "json \<Rightarrow> request \<Rightarrow> request" where
  "set_done parsed req =
     (case field parsed ''done'' of
        Some (JBool b) \<Rightarrow> req\<lparr>body := (body req)(''done'' \<mapsto> JBool b)\<rparr>
      | _ \<Rightarrow> req)"

definition set_newTask :: "json \<Rightarrow> request \<Rightarrow> request" where
  "set_newTask parsed req =
     (case field parsed ''newTask'' of
        Some v \<Rightarrow> if truthy (Some v) then req\<lparr>body := (body req)(''task'' \<mapsto> v)\<rparr> else req
      | None \<Rightarrow> req)"

definition handleUpdateIntent :: "json \<Rightarrow> request \<Rightarrow> world \<Rightarrow> outcome \<times> world" where
  "handleUpdateIntent parsed req w =
     (case field parsed ''id'' of
        Some (JNum n) \<Rightarrow>
          UpdateTodo (set_newTask parsed (set_done parsed (req\<lparr>params_id := Some n\<rparr>))) w
      | _ \<Rightarrow>
          (case field parsed ''position'' of
             Some (JNum p) \<Rightarrow>
               (case findTodoIdByPosition p w of
                  (Inl e, w1) \<Rightarrow> (Throws e, w1)
                | (Inr id', w1) \<Rightarrow>
                    if falsy_id id' then (Response 404 (Error (NoTaskAtPosition p)), w1)
                    else UpdateTodo (set_newTask parsed (set_done parsed (req\<lparr>params_id := id'\<rparr>))) w1)
           | _ \<Rightarrow>
               (case field parsed ''task'' of
                  Some (JStr t) \<Rightarrow>
                    (case findTodoIdByPartialTaskName t w of
                       (Inl e, w1) \<Rightarrow> (Throws e, w1)
                     | (Inr id', w1) \<Rightarrow>
                         if falsy_id id' then (Response 404 (Error (NoTaskMatching t)), w1)
                         else UpdateTodo (set_newTask parsed (set_done parsed (req\<lparr>params_id := id'\<rparr>))) w1)
                | _ \<Rightarrow>
                    (Response 400 (Error (Msg ''Need either id, position, or task text for update'')), w))))"

definition handleDeleteIntent :: "json \<Rightarrow> request \<Rightarrow> world \<Rightarrow> outcome \<times> world" where
  "handleDeleteIntent parsed req w =
     (case field parsed ''id'' of
        Some (JNum n) \<Rightarrow> DeleteTodo (req\<lparr>params_id := Some n\<rparr>) w
      | _ \<Rightarrow>
          (case field parsed ''position'' of
             Some (JNum p) \<Rightarrow>
               (case findTodoIdByPosition p w of
                  (Inl e, w1) \<Rightarrow> (Throws e, w1)
                | (Inr id', w1) \<Rightarrow>
                    if falsy_id id' then (Response 404 (Error (NoTaskAtPosition p)), w1)
                    else DeleteTodo (req\<lparr>params_id := id'\<rparr>) w1)
           | _ \<Rightarrow>
               (case field parsed ''task'' of
                  Some (JStr t) \<Rightarrow>
                    (case findTodoIdByPartialTaskName t w of
                       (Inl e, w1) \<Rightarrow> (Throws e, w1)
                     | (Inr id', w1) \<Rightarrow>
                         if falsy_id id' then (Response 404 (Error (NoTaskMatching t)), w1)
                         else DeleteTodo (req\<lparr>params_id := id'\<rparr>) w1)
                | _ \<Rightarrow>
                    (Response 400 (Error (Msg ''Need either id, position, or task text for delete'')), w))))"

text \<open>
  \<open>handleAiPrompt\<close>. The reply of the text-generation service to this request and
  \<open>JSON.parse\<close> (\<open>None\<close>: it throws) are given. Inside \<open>try\<close>, an exception thrown
  before a handler is entered is answered with 500; the promise a handler returns is
  returned without \<open>await\<close>, so its rejection is not caught. \<open>dispatch\<close> is the
  \<open>switch (parsed.intent)\<close> of lines 99 to 116; reading \<open>intent\<close> from \<open>null\<close>
  throws inside \<open>try\<close>.
\<close>

definition dispatch :: "json \<Rightarrow> request \<Rightarrow> world \<Rightarrow> outcome \<times> world" where
  "dispatch parsed req w =
     (if parsed = JNull then (Response 500 (Error (Msg ''Failed to process AI request'')), w)
      else if field parsed ''intent'' = Some (JStr ''create'') then
        (case field parsed ''task'' of
           None \<Rightarrow> (Response 400 (Error (Msg ''Task description required for create'')), w)
         | Some task \<Rightarrow>
             if \<not> truthy (Some task)
             then (Response 400 (Error (Msg ''Task description required for create'')), w)
             else CreateTodo (req\<lparr>body := (body req)(''task'' \<mapsto> task)\<rparr>) w)
      else if field parsed ''intent'' = Some (JStr ''read'') then
        (case GetTodos True w of
           (Inl out, w1) \<Rightarrow> (out, w1)
         | (Inr d, w1) \<Rightarrow> (Response 200 (Recs d), w1))
      else if field parsed ''intent'' = Some (JStr ''update'') then handleUpdateIntent parsed req w
      else if field parsed ''intent'' = Some (JStr ''delete'') then handleDeleteIntent parsed req w
      else (Response 400 (Error (Msg ''Unknown intent from AI'')), w))"

definition handleAiPrompt ::
  "gemini_reply \<Rightarrow> (string \<Rightarrow> json option) \<Rightarrow> request \<Rightarrow> world \<Rightarrow> outcome \<times> world" where
  "handleAiPrompt reply JSON_parse req w =
     (case body req ''prompt'' of
        None \<Rightarrow> (Response 400 (Error (Msg ''Prompt is required'')), w)
      | Some prompt \<Rightarrow>
          if \<not> truthy (Some prompt) then (Response 400 (Error (Msg ''Prompt is required'')), w)
          else
            (let w0 = w\<lparr>calls := calls w @ [Generate prompt]\<rparr>
             in case reply of
                  FetchThrows \<Rightarrow> (Response 500 (Error (Msg ''Failed to process AI request'')), w0)
                | DataError m \<Rightarrow> (Response 500 (Error (Msg m)), w0)
                | Candidates None \<Rightarrow> (Response 500 (Error (Msg ''No response from Gemini'')), w0)
                | Candidates (Some rawText) \<Rightarrow>
                    if rawText = [] then (Response 500 (Error (Msg ''No response from Gemini'')), w0)
                    else
                      (case JSON_parse (cleanJsonString rawText) of
                         None \<Rightarrow>
                           (Response 500 (Error (Msg ''Failed to parse Gemini response as JSON'')), w0)
                       | Some parsed \<Rightarrow> dispatch parsed req w0)))"

section \<open>The scenario of the specification\<close>

text \<open>
  On ASCII text \<open>String.prototype.toLowerCase\<close> turns the letters \<open>A\<close> to \<open>Z\<close> into
  \<open>a\<close> to \<open>z\<close> and leaves every other character. The worlds of the examples below
  hold ASCII text only and take this function as their \<open>toLowerCase\<close>; it says nothing
  of other text.
\<close>

definition ascii_lower :: "char \<Rightarrow> char" where
  "ascii_lower c =
     (case map_of (zip ''ABCDEFGHIJKLMNOPQRSTUVWXYZ'' ''abcdefghijklmnopqrstuvwxyz'') c of
        Some l \<Rightarrow> l
      | None \<Rightarrow> c)"

definition ascii_toLowerCase :: "string \<Rightarrow> string" where
  "ascii_toLowerCase s = map ascii_lower s"

text \<open>
  The two-record table of the concrete scenarios, with a backend that serves every
  call, and the request the natural-language endpoint receives for a prompt.
\<close>

definition scenario_rows :: "todo list" where
  "scenario_rows =
     [\<lparr>todo_id = 1, todo_task = ''Buy milk'', todo_done = False\<rparr>,
      \<lparr>todo_id = 2, todo_task = ''Read book'', todo_done = False\<rparr>]"

definition scenario_world :: world where
  "scenario_world =
     \<lparr>rows = scenario_rows, next_id = 3, faults = [], calls = [],
      toLowerCase = ascii_toLowerCase\<rparr>"

definition ai_request :: "string \<Rightarrow> request" where
  "ai_request prompt = \<lparr>params_id = None, body = [''prompt'' \<mapsto> JStr prompt]\<rparr>"

text \<open>The scenario's table with the id 0 on its first record.\<close>

definition zero_id_world :: world where
  "zero_id_world =
     \<lparr>rows = [\<lparr>todo_id = 0, todo_task = ''Buy milk'', todo_done = False\<rparr>,
              \<lparr>todo_id = 1, todo_task = ''Read book'', todo_done = False\<rparr>],
      next_id = 2, faults = [], calls = [], toLowerCase = ascii_toLowerCase\<rparr>"

section \<open>The wording of the specification\<close>

text \<open>
  The zero-based index as the specification words it: "if position > 0, index =
  position - 1; if position \<le> 0, index = length + position".
\<close>

definition position_index :: "nat \<Rightarrow> int \<Rightarrow> int" where
  "position_index N p = (if p > 0 then p - 1 else int N + p)"

section \<open>The comparison of texts\<close>

text \<open>
  The comparison the lookup makes: the fragment, lower-cased, is a contiguous part of
  the task text, lower-cased.
\<close>

definition lowered_contains :: "(string \<Rightarrow> string) \<Rightarrow> string \<Rightarrow> string \<Rightarrow> bool" where
  "lowered_contains lower task_text fragment = sublist (lower fragment) (lower task_text)"

text \<open>
  Greek text, in UTF-8: the word \<open>KOSMOS\<close> in capital letters (kappa, omicron, sigma,
  mu, omicron, sigma) and its first three letters \<open>KOS\<close>; and what
  \<open>String.prototype.toLowerCase\<close> returns for each (Unicode's default case conversion
  with the \<open>Final_Sigma\<close> rule of \<open>SpecialCasing.txt\<close>): in small letters, the sigma
  that ends the word as the final sigma (\<open>CF 82\<close>), the sigma inside \<open>KOSMOS\<close> as the
  ordinary one (\<open>CF 83\<close>).
\<close>

definition sigma_task :: string where
  "sigma_task =
     [CHR 0xCE, CHR 0x9A, CHR 0xCE, CHR 0x9F, CHR 0xCE, CHR 0xA3,
      CHR 0xCE, CHR 0x9C, CHR 0xCE, CHR 0x9F, CHR 0xCE, CHR 0xA3]"

definition sigma_fragment :: string where
  "sigma_fragment = [CHR 0xCE, CHR 0x9A, CHR 0xCE, CHR 0x9F, CHR 0xCE, CHR 0xA3]"

definition sigma_task_lowered :: string where
  "sigma_task_lowered =
     [CHR 0xCE, CHR 0xBA, CHR 0xCE, CHR 0xBF, CHR 0xCF, CHR 0x83,
      CHR 0xCE, CHR 0xBC, CHR 0xCE, CHR 0xBF, CHR 0xCF, CHR 0x82]"

definition sigma_fragment_lowered :: string where
  "sigma_fragment_lowered = [CHR 0xCE, CHR 0xBA, CHR 0xCE, CHR 0xBF, CHR 0xCF, CHR 0x82]"

text \<open>
  A text that itself starts with the opening marker or ends with the closing marker.
  Structured content never does: it starts with a brace, a bracket, a quote, a digit, a
  minus sign or a letter and ends with a brace, a bracket, a quote, a digit or a letter.
\<close>

definition fenced :: "string \<Rightarrow> bool" where
  "fenced s = (prefix ''```json'' s \<or> suffix ''```'' s)"

text \<open>
  The model's response wrapped in the markers: white space, \<open>```json\<close>, white space,
  the content, white space, \<open>```\<close>, white space.
\<close>

definition wrapped :: "string \<Rightarrow> string \<Rightarrow> string \<Rightarrow> string \<Rightarrow> string \<Rightarrow> string" where
  "wrapped lead gap content gap' trail = lead @ ''```json'' @ gap @ content @ gap' @ ''```'' @ trail"

section \<open>Properties of the store and the CRUD handlers\<close>

lemmas scenario_defs = scenario_rows_def scenario_world_def ai_request_def

lemmas store_defs =
  backend_def store_insert_def store_select_def store_update_def store_delete_def store_up_def

lemma rows_backend: "rows (snd (backend c w)) = rows w"
  by (simp add: backend_def split: list.splits)

lemma rows_store_update:
  "rows (snd (store_update (Some i) d w)) = rows w \<or>
   (\<exists>b. rows (snd (store_update (Some i) d w)) =
      map (\<lambda>r. if todo_id r = i then r\<lparr>todo_done := b\<rparr> else r) (rows w))"
  by (cases "backend (StoreUpdate (Some i) d) w")
     (use rows_backend [of "StoreUpdate (Some i) d" w] in
       \<open>auto simp add: store_update_def Let_def split: option.splits json.splits\<close>)

lemma rows_UpdateTodo:
  "rows (snd (UpdateTodo req w)) = rows (snd (store_update (params_id req) (body req ''done'') w))"
  by (simp add: UpdateTodo_def Let_def split: prod.splits answer.splits)

lemma rows_store_delete:
  "rows (snd (store_delete (Some i) w)) = rows w \<or>
   rows (snd (store_delete (Some i) w)) = filter (\<lambda>r. todo_id r \<noteq> i) (rows w)"
  by (cases "backend (StoreDelete (Some i)) w")
     (use rows_backend [of "StoreDelete (Some i)" w] in
       \<open>auto simp add: store_delete_def Let_def split: option.splits\<close>)

lemma rows_DeleteTodo:
  "rows (snd (DeleteTodo req w)) = rows (snd (store_delete (params_id req) w))"
  by (simp add: DeleteTodo_def Let_def split: prod.splits answer.splits)

text \<open>
  C6. A create request whose task is empty (or absent, or any other falsy value) is
  answered 400 whatever else the request holds, and the world is returned as it was: no
  call to the store is made. When the task is a non-empty text and the backend serves
  the insert, the answer is 201 with the created row: the given task, the id the store
  assigned, not done; the row is in the table afterwards.
\<close>

theorem CreateTodo_validates_then_returns_created:
  "(\<not> truthy (body req ''task'') \<longrightarrow>
      CreateTodo req w = (Response 400 (Error (Msg ''Title and description are required'')), w))
   \<and> (body req ''task'' = Some (JStr t) \<and> t \<noteq> [] \<and> store_up w \<longrightarrow>
      (\<exists>r w'. CreateTodo req w = (Response 201 (Rec r), w') \<and>
         r = \<lparr>todo_id = next_id w, todo_task = t, todo_done = False\<rparr> \<and>
         rows w' = rows w @ [r] \<and> calls w' = calls w @ [StoreInsert (JStr t)]))"
proof (intro conjI impI)
  assume "\<not> truthy (body req ''task'')"
  then show "CreateTodo req w =
      (Response 400 (Error (Msg ''Title and description are required'')), w)"
    by (cases "body req ''task''") (simp_all add: CreateTodo_def)
next
  assume "body req ''task'' = Some (JStr t) \<and> t \<noteq> [] \<and> store_up w"
  then show "\<exists>r w'. CreateTodo req w = (Response 201 (Rec r), w') \<and>
         r = \<lparr>todo_id = next_id w, todo_task = t, todo_done = False\<rparr> \<and>
         rows w' = rows w @ [r] \<and> calls w' = calls w @ [StoreInsert (JStr t)]"
    by (cases "faults w") (simp_all add: CreateTodo_def store_defs Let_def)
qed

theorem CreateTodo_validates_then_returns_created_witness:
  "CreateTodo \<lparr>params_id = Some 7, body = [''task'' \<mapsto> JStr '''', ''done'' \<mapsto> JBool True]\<rparr>
      scenario_world
     = (Response 400 (Error (Msg ''Title and description are required'')), scenario_world)
   \<and> (\<exists>w'. CreateTodo \<lparr>params_id = None, body = [''task'' \<mapsto> JStr ''Walk dog'']\<rparr> scenario_world
         = (Response 201 (Rec \<lparr>todo_id = 3, todo_task = ''Walk dog'', todo_done = False\<rparr>), w')
       \<and> rows w' = scenario_rows @ [\<lparr>todo_id = 3, todo_task = ''Walk dog'', todo_done = False\<rparr>])"
  using
    CreateTodo_validates_then_returns_created
      [of "\<lparr>params_id = Some 7, body = [''task'' \<mapsto> JStr '''', ''done'' \<mapsto> JBool True]\<rparr>"
          scenario_world "''x''"]
    CreateTodo_validates_then_returns_created
      [of "\<lparr>params_id = None, body = [''task'' \<mapsto> JStr ''Walk dog'']\<rparr>"
          scenario_world "''Walk dog''"]
  by (auto simp add: scenario_world_def store_up_def)

text \<open>
  C7. Deleting by an id that no stored row has is answered 200 with the empty list and
  leaves the table as it was; when the backend serves the call the answer is always 200;
  an answer other than 200 is the 500 that carries the backend's error, and the table
  is unchanged then too.
\<close>

theorem DeleteTodo_missing_id_is_noop:
  "(params_id req = Some i \<and> i \<notin> todo_id ` set (rows w) \<and> store_up w \<longrightarrow>
      fst (DeleteTodo req w) = Response 200 (Recs []) \<and> rows (snd (DeleteTodo req w)) = rows w)
   \<and> (params_id req = Some i \<and> store_up w \<longrightarrow>
      (\<exists>d. fst (DeleteTodo req w) = Response 200 (Recs d)))
   \<and> (\<forall>n b. params_id req = Some i \<and> fst (DeleteTodo req w) = Response n b \<and> n \<noteq> 200 \<longrightarrow>
      (\<exists>e fs. faults w = Some e # fs \<and> n = 500 \<and> b = Error (Msg e) \<and>
         rows (snd (DeleteTodo req w)) = rows w))"
  by (cases "faults w")
     (auto simp add: DeleteTodo_def store_defs Let_def image_iff filter_empty_conv filter_id_conv
        split: option.splits)

theorem DeleteTodo_missing_id_is_noop_witness:
  "(fst (DeleteTodo \<lparr>params_id = Some 5, body = Map.empty\<rparr> scenario_world) = Response 200 (Recs [])
    \<and> rows (snd (DeleteTodo \<lparr>params_id = Some 5, body = Map.empty\<rparr> scenario_world))
        = rows scenario_world)
   \<and> (\<exists>e fs. faults (scenario_world\<lparr>faults := [Some ''connection refused'']\<rparr>) = Some e # fs
        \<and> (500::nat) = 500 \<and> Error (Msg ''connection refused'') = Error (Msg e)
        \<and> rows (snd (DeleteTodo \<lparr>params_id = Some 5, body = Map.empty\<rparr>
              (scenario_world\<lparr>faults := [Some ''connection refused'']\<rparr>)))
           = rows (scenario_world\<lparr>faults := [Some ''connection refused'']\<rparr>))"
proof
  have served:
    "params_id \<lparr>params_id = Some 5, body = Map.empty\<rparr> = Some 5
     \<and> 5 \<notin> todo_id ` set (rows scenario_world) \<and> store_up scenario_world"
    by (simp add: scenario_defs store_up_def)
  from DeleteTodo_missing_id_is_noop
         [of "\<lparr>params_id = Some 5, body = Map.empty\<rparr>" 5 scenario_world, THEN conjunct1, THEN mp, OF served]
  show "fst (DeleteTodo \<lparr>params_id = Some 5, body = Map.empty\<rparr> scenario_world) = Response 200 (Recs [])
    \<and> rows (snd (DeleteTodo \<lparr>params_id = Some 5, body = Map.empty\<rparr> scenario_world))
        = rows scenario_world" .
next
  have refused:
    "params_id \<lparr>params_id = Some 5, body = Map.empty\<rparr> = Some 5
     \<and> fst (DeleteTodo \<lparr>params_id = Some 5, body = Map.empty\<rparr>
              (scenario_world\<lparr>faults := [Some ''connection refused'']\<rparr>))
         = Response 500 (Error (Msg ''connection refused''))
     \<and> (500::nat) \<noteq> 200"
    by (simp add: DeleteTodo_def store_delete_def backend_def scenario_defs)
  from DeleteTodo_missing_id_is_noop
         [of "\<lparr>params_id = Some 5, body = Map.empty\<rparr>" 5
             "scenario_world\<lparr>faults := [Some ''connection refused'']\<rparr>",
          THEN conjunct2, THEN conjunct2, THEN spec, THEN spec, THEN mp, OF refused]
  show "\<exists>e fs. faults (scenario_world\<lparr>faults := [Some ''connection refused'']\<rparr>) = Some e # fs
        \<and> (500::nat) = 500 \<and> Error (Msg ''connection refused'') = Error (Msg e)
        \<and> rows (snd (DeleteTodo \<lparr>params_id = Some 5, body = Map.empty\<rparr>
              (scenario_world\<lparr>faults := [Some ''connection refused'']\<rparr>)))
           = rows (scenario_world\<lparr>faults := [Some ''connection refused'']\<rparr>)" .
qed

text \<open>
  C8. An update or a delete for the target id \<open>i\<close> touches no row with another id:
  an update keeps the number of rows and leaves every row whose id is not \<open>i\<close> in place
  and unchanged; after a delete the rows whose id is not \<open>i\<close> are the same, in the same
  order. In the scenario of the specification, the intent \<open>{update, id 2, done true}\<close>
  sets the done flag of record 2 and leaves record 1 as it was.
\<close>

theorem UpdateTodo_DeleteTodo_touch_only_target:
  "(length (rows (snd (UpdateTodo (req\<lparr>params_id := Some i\<rparr>) w))) = length (rows w) \<and>
    (\<forall>k < length (rows w). todo_id (rows w ! k) \<noteq> i \<longrightarrow>
        rows (snd (UpdateTodo (req\<lparr>params_id := Some i\<rparr>) w)) ! k = rows w ! k))
   \<and> filter (\<lambda>r. todo_id r \<noteq> i) (rows (snd (DeleteTodo (req\<lparr>params_id := Some i\<rparr>) w)))
       = filter (\<lambda>r. todo_id r \<noteq> i) (rows w)
   \<and> rows (snd (handleUpdateIntent
         (JObj [(''intent'', JStr ''update''), (''id'', JNum 2), (''done'', JBool True)])
         (ai_request ''mark task 2 as done'') scenario_world))
       = [\<lparr>todo_id = 1, todo_task = ''Buy milk'', todo_done = False\<rparr>,
          \<lparr>todo_id = 2, todo_task = ''Read book'', todo_done = True\<rparr>]"
proof (intro conjI)
  show "length (rows (snd (UpdateTodo (req\<lparr>params_id := Some i\<rparr>) w))) = length (rows w)"
    using rows_store_update [of i "body req ''done''" w] by (auto simp add: rows_UpdateTodo)
  show "\<forall>k < length (rows w). todo_id (rows w ! k) \<noteq> i \<longrightarrow>
        rows (snd (UpdateTodo (req\<lparr>params_id := Some i\<rparr>) w)) ! k = rows w ! k"
    using rows_store_update [of i "body req ''done''" w] by (auto simp add: rows_UpdateTodo)
  show "filter (\<lambda>r. todo_id r \<noteq> i) (rows (snd (DeleteTodo (req\<lparr>params_id := Some i\<rparr>) w)))
       = filter (\<lambda>r. todo_id r \<noteq> i) (rows w)"
    using rows_store_delete [of i w] by (auto simp add: rows_DeleteTodo)
  show "rows (snd (handleUpdateIntent
         (JObj [(''intent'', JStr ''update''), (''id'', JNum 2), (''done'', JBool True)])
         (ai_request ''mark task 2 as done'') scenario_world))
       = [\<lparr>todo_id = 1, todo_task = ''Buy milk'', todo_done = False\<rparr>,
          \<lparr>todo_id = 2, todo_task = ''Read book'', todo_done = True\<rparr>]"
    by (simp add: handleUpdateIntent_def UpdateTodo_def set_done_def set_newTask_def store_defs
        scenario_defs Let_def)
qed

theorem UpdateTodo_DeleteTodo_touch_only_target_witness:
  "rows (snd (UpdateTodo \<lparr>params_id = Some 2, body = [''done'' \<mapsto> JBool True]\<rparr> scenario_world)) ! 0
     = rows scenario_world ! 0"
proof -
  have other: "0 < length (rows scenario_world) \<and> todo_id (rows scenario_world ! 0) \<noteq> 2"
    by (simp add: scenario_defs)
  have "rows (snd (UpdateTodo (\<lparr>params_id = None, body = [''done'' \<mapsto> JBool True]\<rparr>
                       \<lparr>params_id := Some 2\<rparr>) scenario_world)) ! 0
          = rows scenario_world ! 0"
    using UpdateTodo_DeleteTodo_touch_only_target
            [where req = "\<lparr>params_id = None, body = [''done'' \<mapsto> JBool True]\<rparr>"
               and i = 2 and w = scenario_world]
          other
    by blast
  then show ?thesis by simp
qed

text \<open>
  C1. With the scenario's table, the intent \<open>{update, id 2, newTask "Read novel", done
  true}\<close> is answered 200 with record 2 done, its task still \<open>Read book\<close>: the update
  sends the done flag alone, and the new task text placed in the request body is never
  read.
\<close>

theorem handleUpdateIntent_newTask_not_written:
  "handleUpdateIntent
     (JObj [(''intent'', JStr ''update''), (''id'', JNum 2), (''newTask'', JStr ''Read novel''),
            (''done'', JBool True)])
     (ai_request ''rename task 2 to Read novel and mark it done'') scenario_world
   = (Response 200 (Recs [\<lparr>todo_id = 2, todo_task = ''Read book'', todo_done = True\<rparr>]),
      scenario_world\<lparr>rows := [\<lparr>todo_id = 1, todo_task = ''Buy milk'', todo_done = False\<rparr>,
                               \<lparr>todo_id = 2, todo_task = ''Read book'', todo_done = True\<rparr>],
                     calls := [StoreUpdate (Some 2) (Some (JBool True))]\<rparr>)"
  by (simp add: handleUpdateIntent_def UpdateTodo_def set_done_def set_newTask_def store_defs
        scenario_defs Let_def)

text \<open>No update changes a task text, whatever the request body holds.\<close>

lemma UpdateTodo_keeps_every_task:
  "map todo_task (rows (snd (UpdateTodo req w))) = map todo_task (rows w)"
proof (cases "params_id req")
  case None
  then show ?thesis
    using rows_backend [of "StoreUpdate None (body req ''done'')" w]
    by (cases "backend (StoreUpdate None (body req ''done'')) w")
       (auto simp add: rows_UpdateTodo store_update_def split: option.splits)
next
  case (Some i)
  have "map todo_task (map (\<lambda>r. if todo_id r = i then r\<lparr>todo_done := b\<rparr> else r) rs)
          = map todo_task rs" for b and rs :: "todo list"
    by (induction rs) simp_all
  with Some show ?thesis
    using rows_store_update [of i "body req ''done''" w] by (auto simp add: rows_UpdateTodo)
qed

text \<open>
  C10. A request to the natural-language endpoint without a prompt (absent, empty, or
  any other falsy value) is answered 400 \<open>Prompt is required\<close>, whatever the
  text-generation service would have replied, and the world is returned as it was: no
  call to the service or to the store is recorded and the table is unchanged.
\<close>

theorem handleAiPrompt_requires_prompt:
  "\<not> truthy (body req ''prompt'') \<Longrightarrow>
   handleAiPrompt reply JSON_parse req w = (Response 400 (Error (Msg ''Prompt is required'')), w)"
  by (cases "body req ''prompt''") (simp_all add: handleAiPrompt_def)

theorem handleAiPrompt_requires_prompt_witness:
  "handleAiPrompt (Candidates (Some ''{}'')) (\<lambda>s. Some (JObj [(''intent'', JStr ''read'')]))
      \<lparr>params_id = None, body = Map.empty\<rparr> scenario_world
     = (Response 400 (Error (Msg ''Prompt is required'')), scenario_world)
   \<and> handleAiPrompt (Candidates (Some ''{}'')) (\<lambda>s. Some (JObj [(''intent'', JStr ''read'')]))
      (ai_request '''') scenario_world
     = (Response 400 (Error (Msg ''Prompt is required'')), scenario_world)"
proof
  have absent: "\<not> truthy (body \<lparr>params_id = None, body = Map.empty\<rparr> ''prompt'')"
    by simp
  show "handleAiPrompt (Candidates (Some ''{}'')) (\<lambda>s. Some (JObj [(''intent'', JStr ''read'')]))
      \<lparr>params_id = None, body = Map.empty\<rparr> scenario_world
     = (Response 400 (Error (Msg ''Prompt is required'')), scenario_world)"
    by (rule handleAiPrompt_requires_prompt [OF absent])
next
  have empty: "\<not> truthy (body (ai_request '''') ''prompt'')"
    by (simp add: ai_request_def)
  show "handleAiPrompt (Candidates (Some ''{}'')) (\<lambda>s. Some (JObj [(''intent'', JStr ''read'')]))
      (ai_request '''') scenario_world
     = (Response 400 (Error (Msg ''Prompt is required'')), scenario_world)"
    by (rule handleAiPrompt_requires_prompt [OF empty])
qed

text \<open>With a prompt, the request to the text-generation service is made and recorded.\<close>

lemma handleAiPrompt_calls_service:
  "body req ''prompt'' = Some prompt \<Longrightarrow> truthy (Some prompt) \<Longrightarrow>
   handleAiPrompt (DataError m) JSON_parse req w =
     (Response 500 (Error (Msg m)), w\<lparr>calls := calls w @ [Generate prompt]\<rparr>)"
  by (simp add: handleAiPrompt_def)

section \<open>Properties of target resolution\<close>

lemma GetTodos_without_res: "fst (GetTodos False w) \<noteq> Inl (Response n b)"
  by (simp add: GetTodos_def split: prod.splits answer.splits)

lemma GetTodos_with_res: "fst (GetTodos True w) \<noteq> Inr d"
  by (simp add: GetTodos_def split: prod.splits answer.splits)

lemma GetTodos_served:
  "store_up w \<Longrightarrow> GetTodos False w = (Inr (rows w), snd (backend StoreSelect w))"
  by (cases "faults w") (simp_all add: GetTodos_def store_defs)

lemma findTodoIdByPosition_served:
  "store_up w \<Longrightarrow>
   findTodoIdByPosition p w = (Inr (idAtPosition (rows w) p), snd (backend StoreSelect w))"
  by (simp add: findTodoIdByPosition_def GetTodos_served)

lemma findTodoIdByPartialTaskName_served:
  "store_up w \<Longrightarrow>
   findTodoIdByPartialTaskName t w =
     (Inr (idByPartialTaskName (toLowerCase w) (rows w) t), snd (backend StoreSelect w))"
  by (simp add: findTodoIdByPartialTaskName_def GetTodos_served)

lemma idAtPosition_index:
  "idAtPosition todos p =
     (if 0 \<le> position_index (length todos) p \<and> position_index (length todos) p < int (length todos)
      then Some (todo_id (todos ! nat (position_index (length todos) p))) else None)"
  by (auto simp add: idAtPosition_def position_index_def Let_def)

lemma idAtPosition_first: "todos \<noteq> [] \<Longrightarrow> idAtPosition todos 1 = Some (todo_id (hd todos))"
  by (auto simp add: idAtPosition_def Let_def hd_conv_nth)

lemma idAtPosition_last: "todos \<noteq> [] \<Longrightarrow> idAtPosition todos (- 1) = Some (todo_id (last todos))"
  by (auto simp add: idAtPosition_def Let_def last_conv_nth nat_diff_distrib')

lemma position_not_found:
  assumes "store_up w" and "idAtPosition (rows w) p = None"
    and "\<forall>n. field parsed ''id'' \<noteq> Some (JNum n)" and "field parsed ''position'' = Some (JNum p)"
  shows "handleUpdateIntent parsed req w =
           (Response 404 (Error (NoTaskAtPosition p)), snd (backend StoreSelect w))"
    and "handleDeleteIntent parsed req w =
           (Response 404 (Error (NoTaskAtPosition p)), snd (backend StoreSelect w))"
  using assms
  by (auto simp add: handleUpdateIntent_def handleDeleteIntent_def findTodoIdByPosition_served
        falsy_id_def split: option.splits json.splits)

text \<open>
  C2. When the store serves the list, \<open>findTodoIdByPosition\<close> returns the id of the
  record at the index the specification computes (\<open>p - 1\<close> for \<open>p > 0\<close>, \<open>N + p\<close>
  otherwise) when that index is in \<open>[0, N)\<close> and \<open>null\<close> otherwise; on an empty list it
  returns \<open>null\<close> for every \<open>p\<close>; on a non-empty list position 1 gives the first record
  and position -1 the last. Where it returns \<open>null\<close>, an update or delete intent that
  refers to its target by this position is answered 404 and the table is unchanged.
\<close>

theorem findTodoIdByPosition_resolves:
  "store_up w \<Longrightarrow>
   fst (findTodoIdByPosition p w) =
     Inr (if 0 \<le> position_index (length (rows w)) p
             \<and> position_index (length (rows w)) p < int (length (rows w))
          then Some (todo_id (rows w ! nat (position_index (length (rows w)) p))) else None)
   \<and> (rows w = [] \<longrightarrow> fst (findTodoIdByPosition p w) = Inr None)
   \<and> (rows w \<noteq> [] \<longrightarrow>
        fst (findTodoIdByPosition 1 w) = Inr (Some (todo_id (hd (rows w)))) \<and>
        fst (findTodoIdByPosition (- 1) w) = Inr (Some (todo_id (last (rows w)))))
   \<and> (fst (findTodoIdByPosition p w) = Inr None
        \<and> (\<forall>n. field parsed ''id'' \<noteq> Some (JNum n)) \<and> field parsed ''position'' = Some (JNum p) \<longrightarrow>
        fst (handleUpdateIntent parsed req w) = Response 404 (Error (NoTaskAtPosition p)) \<and>
        rows (snd (handleUpdateIntent parsed req w)) = rows w \<and>
        fst (handleDeleteIntent parsed req w) = Response 404 (Error (NoTaskAtPosition p)) \<and>
        rows (snd (handleDeleteIntent parsed req w)) = rows w)"
proof (intro conjI impI)
  assume up: "store_up w"
  show "fst (findTodoIdByPosition p w) =
     Inr (if 0 \<le> position_index (length (rows w)) p
             \<and> position_index (length (rows w)) p < int (length (rows w))
          then Some (todo_id (rows w ! nat (position_index (length (rows w)) p))) else None)"
    using up by (simp add: findTodoIdByPosition_served idAtPosition_index)
  show "fst (findTodoIdByPosition p w) = Inr None" if "rows w = []"
    using up that by (simp add: findTodoIdByPosition_served idAtPosition_def)
  show "fst (findTodoIdByPosition 1 w) = Inr (Some (todo_id (hd (rows w))))" if "rows w \<noteq> []"
    using up that by (simp add: findTodoIdByPosition_served idAtPosition_first)
  show "fst (findTodoIdByPosition (- 1) w) = Inr (Some (todo_id (last (rows w))))" if "rows w \<noteq> []"
    using up that by (simp add: findTodoIdByPosition_served idAtPosition_last)
  assume nf: "fst (findTodoIdByPosition p w) = Inr None
        \<and> (\<forall>n. field parsed ''id'' \<noteq> Some (JNum n)) \<and> field parsed ''position'' = Some (JNum p)"
  with up have none: "idAtPosition (rows w) p = None"
    by (simp add: findTodoIdByPosition_served)
  note nf404 = position_not_found [OF up none, of parsed req]
  show "fst (handleUpdateIntent parsed req w) = Response 404 (Error (NoTaskAtPosition p))"
    using nf nf404 by simp
  show "rows (snd (handleUpdateIntent parsed req w)) = rows w"
    using nf nf404 by (simp add: rows_backend)
  show "fst (handleDeleteIntent parsed req w) = Response 404 (Error (NoTaskAtPosition p))"
    using nf nf404 by simp
  show "rows (snd (handleDeleteIntent parsed req w)) = rows w"
    using nf nf404 by (simp add: rows_backend)
qed

theorem findTodoIdByPosition_resolves_witness:
  "fst (findTodoIdByPosition (- 1) scenario_world) = Inr (Some 2)
   \<and> fst (findTodoIdByPosition 1 scenario_world) = Inr (Some 1)
   \<and> fst (handleDeleteIntent (JObj [(''intent'', JStr ''delete''), (''position'', JNum 3)])
            (ai_request ''delete the third task'') scenario_world)
       = Response 404 (Error (NoTaskAtPosition 3))
   \<and> fst (findTodoIdByPosition (- 1) (scenario_world\<lparr>rows := []\<rparr>)) = Inr None"
proof -
  have up: "store_up scenario_world"
    by (simp add: scenario_defs store_up_def)
  have nonempty: "rows scenario_world \<noteq> []"
    by (simp add: scenario_defs)
  have third: "fst (findTodoIdByPosition 3 scenario_world) = Inr None
      \<and> (\<forall>n. field (JObj [(''intent'', JStr ''delete''), (''position'', JNum 3)]) ''id'' \<noteq> Some (JNum n))
      \<and> field (JObj [(''intent'', JStr ''delete''), (''position'', JNum 3)]) ''position'' = Some (JNum 3)"
    by (simp add: findTodoIdByPosition_def GetTodos_def store_defs idAtPosition_def scenario_defs)
  have ends: "hd (rows scenario_world) = \<lparr>todo_id = 1, todo_task = ''Buy milk'', todo_done = False\<rparr>"
      "last (rows scenario_world) = \<lparr>todo_id = 2, todo_task = ''Read book'', todo_done = False\<rparr>"
    by (simp_all add: scenario_defs)
  from findTodoIdByPosition_resolves
         [OF up, of 3 "JObj [(''intent'', JStr ''delete''), (''position'', JNum 3)]"
            "ai_request ''delete the third task''"]
       nonempty third ends
  have filled: "fst (findTodoIdByPosition (- 1) scenario_world) = Inr (Some 2)
   \<and> fst (findTodoIdByPosition 1 scenario_world) = Inr (Some 1)
   \<and> fst (handleDeleteIntent (JObj [(''intent'', JStr ''delete''), (''position'', JNum 3)])
            (ai_request ''delete the third task'') scenario_world)
       = Response 404 (Error (NoTaskAtPosition 3))"
    by simp
  have up': "store_up (scenario_world\<lparr>rows := []\<rparr>)"
    by (simp add: scenario_defs store_up_def)
  have empty: "rows (scenario_world\<lparr>rows := []\<rparr>) = []"
    by simp
  from findTodoIdByPosition_resolves [OF up', of "- 1", THEN conjunct2, THEN conjunct1, THEN mp, OF empty]
  have "fst (findTodoIdByPosition (- 1) (scenario_world\<lparr>rows := []\<rparr>)) = Inr None" .
  with filled show ?thesis
    by (simp only: simp_thms)
qed

subsection \<open>The branch an intent takes\<close>





lemma handleUpdateIntent_by_task:
  "\<forall>m. field parsed ''id'' \<noteq> Some (JNum m) \<Longrightarrow> \<forall>m. field parsed ''position'' \<noteq> Some (JNum m) \<Longrightarrow>
   field parsed ''task'' = Some (JStr t) \<Longrightarrow>
   handleUpdateIntent parsed req w =
     (case findTodoIdByPartialTaskName t w of
        (Inl e, w1) \<Rightarrow> (Throws e, w1)
      | (Inr id', w1) \<Rightarrow>
          if falsy_id id' then (Response 404 (Error (NoTaskMatching t)), w1)
          else UpdateTodo (set_newTask parsed (set_done parsed (req\<lparr>params_id := id'\<rparr>))) w1)"
  by (simp add: handleUpdateIntent_def split: option.splits json.splits)

lemma handleDeleteIntent_by_task:
  "\<forall>m. field parsed ''id'' \<noteq> Some (JNum m) \<Longrightarrow> \<forall>m. field parsed ''position'' \<noteq> Some (JNum m) \<Longrightarrow>
   field parsed ''task'' = Some (JStr t) \<Longrightarrow>
   handleDeleteIntent parsed req w =
     (case findTodoIdByPartialTaskName t w of
        (Inl e, w1) \<Rightarrow> (Throws e, w1)
      | (Inr id', w1) \<Rightarrow>
          if falsy_id id' then (Response 404 (Error (NoTaskMatching t)), w1)
          else DeleteTodo (req\<lparr>params_id := id'\<rparr>) w1)"
  by (simp add: handleDeleteIntent_def split: option.splits json.splits)








subsection \<open>Resolution by a fragment of the task text\<close>

lemma includes_str_sublist: "includes_str s sub = sublist sub s"
  by (induction s) (simp_all add: sublist_Cons_right)

lemma idByPartialTaskName_find:
  "idByPartialTaskName lower todos fragment =
     map_option todo_id (find (\<lambda>t. lowered_contains lower (todo_task t) fragment) todos)"
  by (cases todos)
     (simp_all add: idByPartialTaskName_def lowered_contains_def includes_str_sublist Let_def
        split: option.splits)

lemma idByPartialTaskName_none:
  "\<forall>t \<in> set todos. \<not> lowered_contains lower (todo_task t) fragment \<Longrightarrow>
   idByPartialTaskName lower todos fragment = None"
  by (simp add: idByPartialTaskName_find find_None_iff)

lemma idByPartialTaskName_first:
  assumes "k < length todos" and "lowered_contains lower (todo_task (todos ! k)) fragment"
    and "\<forall>j < k. \<not> lowered_contains lower (todo_task (todos ! j)) fragment"
  shows "idByPartialTaskName lower todos fragment = Some (todo_id (todos ! k))"
proof -
  have "find (\<lambda>t. lowered_contains lower (todo_task t) fragment) todos = Some (todos ! k)"
    using assms by (auto simp add: find_Some_iff)
  then show ?thesis
    by (simp add: idByPartialTaskName_find)
qed

lemma lowered_contains_empty: "lower [] = [] \<Longrightarrow> lowered_contains lower task_text []"
  by (simp add: lowered_contains_def)

lemma idByPartialTaskName_empty_fragment:
  "lower [] = [] \<Longrightarrow> todos \<noteq> [] \<Longrightarrow>
   idByPartialTaskName lower todos [] = Some (todo_id (hd todos))"
  using idByPartialTaskName_first [of 0 todos lower "[]"]
  by (simp add: lowered_contains_empty hd_conv_nth)

text \<open>
  What the lookup does for every table, fragment and \<open>toLowerCase\<close>: it returns \<open>null\<close>
  if no record's lower-cased task contains the lower-cased fragment, and otherwise the id
  of the first record, in the order the store returned, whose lower-cased task does.
  Where it returns \<open>null\<close>, an update or delete intent that refers to its target by this
  fragment is answered 404 and the table is unchanged.
\<close>

lemma findTodoIdByPartialTaskName_first_lowered_match:
  "store_up w \<Longrightarrow>
   ((\<forall>t \<in> set (rows w). \<not> lowered_contains (toLowerCase w) (todo_task t) fragment) \<longrightarrow>
      fst (findTodoIdByPartialTaskName fragment w) = Inr None)
   \<and> (\<forall>k < length (rows w).
        lowered_contains (toLowerCase w) (todo_task (rows w ! k)) fragment
        \<and> (\<forall>j < k. \<not> lowered_contains (toLowerCase w) (todo_task (rows w ! j)) fragment) \<longrightarrow>
        fst (findTodoIdByPartialTaskName fragment w) = Inr (Some (todo_id (rows w ! k))))
   \<and> (fst (findTodoIdByPartialTaskName fragment w) = Inr None
        \<and> (\<forall>n. field parsed ''id'' \<noteq> Some (JNum n)) \<and> (\<forall>n. field parsed ''position'' \<noteq> Some (JNum n))
        \<and> field parsed ''task'' = Some (JStr fragment) \<longrightarrow>
        fst (handleUpdateIntent parsed req w) = Response 404 (Error (NoTaskMatching fragment)) \<and>
        rows (snd (handleUpdateIntent parsed req w)) = rows w \<and>
        fst (handleDeleteIntent parsed req w) = Response 404 (Error (NoTaskMatching fragment)) \<and>
        rows (snd (handleDeleteIntent parsed req w)) = rows w)"
proof (intro conjI impI allI)
  assume up: "store_up w"
  note served = findTodoIdByPartialTaskName_served [OF up]
  show "fst (findTodoIdByPartialTaskName fragment w) = Inr None"
    if "\<forall>t \<in> set (rows w). \<not> lowered_contains (toLowerCase w) (todo_task t) fragment"
    using that by (simp add: served idByPartialTaskName_none)
  show "fst (findTodoIdByPartialTaskName fragment w) = Inr (Some (todo_id (rows w ! k)))"
    if "k < length (rows w)"
      and "lowered_contains (toLowerCase w) (todo_task (rows w ! k)) fragment
        \<and> (\<forall>j < k. \<not> lowered_contains (toLowerCase w) (todo_task (rows w ! j)) fragment)" for k
    using that by (simp add: served idByPartialTaskName_first)
  assume nf: "fst (findTodoIdByPartialTaskName fragment w) = Inr None
        \<and> (\<forall>n. field parsed ''id'' \<noteq> Some (JNum n)) \<and> (\<forall>n. field parsed ''position'' \<noteq> Some (JNum n))
        \<and> field parsed ''task'' = Some (JStr fragment)"
  then have none: "findTodoIdByPartialTaskName fragment w = (Inr None, snd (backend StoreSelect w))"
    by (simp add: served)
  from nf have id: "\<forall>n. field parsed ''id'' \<noteq> Some (JNum n)"
    and pos: "\<forall>n. field parsed ''position'' \<noteq> Some (JNum n)"
    and task: "field parsed ''task'' = Some (JStr fragment)"
    by simp_all
  have upd: "handleUpdateIntent parsed req w =
      (Response 404 (Error (NoTaskMatching fragment)), snd (backend StoreSelect w))"
    by (simp add: handleUpdateIntent_by_task [OF id pos task] none falsy_id_def)
  have del: "handleDeleteIntent parsed req w =
      (Response 404 (Error (NoTaskMatching fragment)), snd (backend StoreSelect w))"
    by (simp add: handleDeleteIntent_by_task [OF id pos task] none falsy_id_def)
  show "fst (handleUpdateIntent parsed req w) = Response 404 (Error (NoTaskMatching fragment))"
    by (simp add: upd)
  show "rows (snd (handleUpdateIntent parsed req w)) = rows w"
    by (simp add: upd rows_backend)
  show "fst (handleDeleteIntent parsed req w) = Response 404 (Error (NoTaskMatching fragment))"
    by (simp add: del)
  show "rows (snd (handleDeleteIntent parsed req w)) = rows w"
    by (simp add: del rows_backend)
qed

text \<open>
  On the scenario's table, whose texts are ASCII, the fragment \<open>BOOK\<close> resolves to record
  2 and the fragment \<open>walk\<close> to nothing.
\<close>

lemma findTodoIdByPartialTaskName_scenario:
  "fst (findTodoIdByPartialTaskName ''BOOK'' scenario_world) = Inr (Some 2)
   \<and> fst (handleDeleteIntent (JObj [(''intent'', JStr ''delete''), (''task'', JStr ''walk'')])
            (ai_request ''delete the walk task'') scenario_world)
       = Response 404 (Error (NoTaskMatching ''walk''))"
  by (simp add: handleDeleteIntent_def findTodoIdByPartialTaskName_def idByPartialTaskName_def
      GetTodos_def falsy_id_def ascii_toLowerCase_def ascii_lower_def store_defs scenario_defs
      Let_def)

text \<open>
  C3. The table holds one record whose task is the Greek word \<open>KOSMOS\<close> in capital
  letters, and \<open>toLowerCase\<close> returns for that task and for the fragment \<open>KOS\<close>, its
  first three letters, what the language defines: a capital sigma becomes the final
  sigma at the end of a word and the ordinary small sigma inside one. The task contains
  the fragment as it stands, yet the lookup returns \<open>null\<close> and a delete intent by that
  fragment is answered 404 with the table unchanged: the lower-cased fragment ends in a
  final sigma that the lower-cased task does not have at that place.
\<close>

theorem findTodoIdByPartialTaskName_final_sigma:
  "rows w = [\<lparr>todo_id = 1, todo_task = sigma_task, todo_done = False\<rparr>] \<Longrightarrow> store_up w \<Longrightarrow>
   toLowerCase w sigma_task = sigma_task_lowered \<Longrightarrow>
   toLowerCase w sigma_fragment = sigma_fragment_lowered \<Longrightarrow>
   prefix sigma_fragment sigma_task
   \<and> fst (findTodoIdByPartialTaskName sigma_fragment w) = Inr None
   \<and> fst (handleDeleteIntent (JObj [(''intent'', JStr ''delete''), (''task'', JStr sigma_fragment)])
        req w) = Response 404 (Error (NoTaskMatching sigma_fragment))
   \<and> rows (snd (handleDeleteIntent (JObj [(''intent'', JStr ''delete''), (''task'', JStr sigma_fragment)])
        req w)) = rows w"
proof (intro conjI)
  assume table: "rows w = [\<lparr>todo_id = 1, todo_task = sigma_task, todo_done = False\<rparr>]"
    and up: "store_up w"
    and task: "toLowerCase w sigma_task = sigma_task_lowered"
    and fragment: "toLowerCase w sigma_fragment = sigma_fragment_lowered"
  show "prefix sigma_fragment sigma_task"
    by (simp add: sigma_fragment_def sigma_task_def)
  have "\<not> includes_str sigma_task_lowered sigma_fragment_lowered"
    by (simp add: sigma_task_lowered_def sigma_fragment_lowered_def)
  then have "idByPartialTaskName (toLowerCase w) (rows w) sigma_fragment = None"
    by (simp add: idByPartialTaskName_def table task fragment)
  then have none: "findTodoIdByPartialTaskName sigma_fragment w = (Inr None, snd (backend StoreSelect w))"
    by (simp add: findTodoIdByPartialTaskName_served [OF up])
  then show "fst (findTodoIdByPartialTaskName sigma_fragment w) = Inr None"
    by simp
  have del: "handleDeleteIntent (JObj [(''intent'', JStr ''delete''), (''task'', JStr sigma_fragment)]) req w
      = (Response 404 (Error (NoTaskMatching sigma_fragment)), snd (backend StoreSelect w))"
    by (simp add: handleDeleteIntent_def none falsy_id_def)
  show "fst (handleDeleteIntent (JObj [(''intent'', JStr ''delete''), (''task'', JStr sigma_fragment)])
        req w) = Response 404 (Error (NoTaskMatching sigma_fragment))"
    by (simp add: del)
  show "rows (snd (handleDeleteIntent (JObj [(''intent'', JStr ''delete''), (''task'', JStr sigma_fragment)])
        req w)) = rows w"
    by (simp add: del rows_backend)
qed

theorem findTodoIdByPartialTaskName_final_sigma_witness:
  "fst (findTodoIdByPartialTaskName sigma_fragment
      \<lparr>rows = [\<lparr>todo_id = 1, todo_task = sigma_task, todo_done = False\<rparr>],
       next_id = 2, faults = [], calls = [],
       toLowerCase = (\<lambda>s. if s = sigma_task then sigma_task_lowered
                           else if s = sigma_fragment then sigma_fragment_lowered else s)\<rparr>)
     = Inr None"
proof -
  let ?w = "\<lparr>rows = [\<lparr>todo_id = 1, todo_task = sigma_task, todo_done = False\<rparr>],
       next_id = 2, faults = [], calls = [],
       toLowerCase = (\<lambda>s. if s = sigma_task then sigma_task_lowered
                           else if s = sigma_fragment then sigma_fragment_lowered else s)\<rparr>"
  have table: "rows ?w = [\<lparr>todo_id = 1, todo_task = sigma_task, todo_done = False\<rparr>]"
    by simp
  have up: "store_up ?w"
    by (simp add: store_up_def)
  have task: "toLowerCase ?w sigma_task = sigma_task_lowered"
    by simp
  have "sigma_fragment \<noteq> sigma_task"
    by (simp add: sigma_fragment_def sigma_task_def)
  then have fragment: "toLowerCase ?w sigma_fragment = sigma_fragment_lowered"
    by simp
  show ?thesis
    by (rule findTodoIdByPartialTaskName_final_sigma
          [OF table up task fragment, THEN conjunct2, THEN conjunct1])
qed

text \<open>
  C9. With a table whose first record has the id 0, the update intent \<open>{task: ""}\<close>
  (no id, no position) is answered 404: the lookup does return the id of the first
  record, 0, and the handler's test \<open>!id\<close> takes it for "no record found". The same
  intent on the scenario's table, where the first id is 1, updates the first record.
\<close>

theorem handleUpdateIntent_empty_fragment_id_zero:
  "idByPartialTaskName (toLowerCase zero_id_world) (rows zero_id_world) '''' = Some 0
   \<and> handleUpdateIntent (JObj [(''intent'', JStr ''update''), (''task'', JStr ''''), (''done'', JBool True)])
        (ai_request ''mark it done'') zero_id_world
      = (Response 404 (Error (NoTaskMatching '''')), zero_id_world\<lparr>calls := [StoreSelect]\<rparr>)
   \<and> handleDeleteIntent (JObj [(''intent'', JStr ''delete''), (''task'', JStr '''')])
        (ai_request ''delete it'') zero_id_world
      = (Response 404 (Error (NoTaskMatching '''')), zero_id_world\<lparr>calls := [StoreSelect]\<rparr>)
   \<and> fst (handleUpdateIntent (JObj [(''intent'', JStr ''update''), (''task'', JStr ''''), (''done'', JBool True)])
        (ai_request ''mark it done'') scenario_world)
      = Response 200 (Recs [\<lparr>todo_id = 1, todo_task = ''Buy milk'', todo_done = True\<rparr>])"
  by (simp add: handleUpdateIntent_def handleDeleteIntent_def findTodoIdByPartialTaskName_def
      idByPartialTaskName_def GetTodos_def UpdateTodo_def falsy_id_def set_done_def set_newTask_def
      ascii_toLowerCase_def store_defs zero_id_world_def scenario_defs Let_def)

text \<open>
  What does hold of the empty fragment (whose lower-casing is empty): the lookup
  resolves to the first record of any non-empty list, and the intent reaches the update
  or delete of that record when its id is not 0.
\<close>

lemma empty_fragment_targets_first:
  assumes "store_up w" and "rows w \<noteq> []" and "todo_id (hd (rows w)) \<noteq> 0"
    and "\<forall>n. field parsed ''id'' \<noteq> Some (JNum n)" and "\<forall>n. field parsed ''position'' \<noteq> Some (JNum n)"
    and "field parsed ''task'' = Some (JStr [])" and "toLowerCase w [] = []"
  shows "handleUpdateIntent parsed req w =
           UpdateTodo (set_newTask parsed (set_done parsed (req\<lparr>params_id := Some (todo_id (hd (rows w)))\<rparr>)))
             (snd (backend StoreSelect w))"
    and "handleDeleteIntent parsed req w =
           DeleteTodo (req\<lparr>params_id := Some (todo_id (hd (rows w)))\<rparr>) (snd (backend StoreSelect w))"
  using assms(1-3,7)
  by (simp_all add: handleUpdateIntent_by_task [OF assms(4-6)] handleDeleteIntent_by_task [OF assms(4-6)]
        findTodoIdByPartialTaskName_served idByPartialTaskName_empty_fragment falsy_id_def)

section \<open>Properties of fence stripping\<close>

lemma dropWhile_leading: "list_all P a \<Longrightarrow> dropWhile P (a @ ys) = dropWhile P ys"
  by (induction a) simp_all

lemma tick_not_space: "\<not> is_space (CHR 0x60)"
  by (simp add: is_space_def)

lemma trim_Nil: "trim [] = []"
  by (simp add: trim_def)

lemma trim_delimited:
  assumes "x \<noteq> []" and "\<not> is_space (hd x)" and "\<not> is_space (last x)"
    and "list_all is_space a" and "list_all is_space b"
  shows "trim (a @ x @ b) = x"
proof -
  from assms(1) obtain c cs where x: "x = c # cs"
    by (cases x) auto
  have "dropWhile is_space (a @ x @ b) = dropWhile is_space (x @ b)"
    using assms(4) by (rule dropWhile_leading)
  also have "\<dots> = x @ b"
    using assms(2) by (simp add: x)
  finally have front: "dropWhile is_space (a @ x @ b) = x @ b" .
  from assms(1) obtain d ds where r: "rev x = d # ds"
    by (cases "rev x") auto
  then have "last x = d"
    by (metis hd_rev list.sel(1))
  with assms(3) have "\<not> is_space d" by simp
  have "list_all is_space (rev b)"
    using assms(5) by (simp add: list_all_iff)
  then have "dropWhile is_space (rev b @ rev x) = dropWhile is_space (rev x)"
    by (rule dropWhile_leading)
  also have "\<dots> = rev x"
    using \<open>\<not> is_space d\<close> by (simp add: r)
  finally show ?thesis
    by (simp add: trim_def front)
qed

lemma dropWhile_trim:
  "dropWhile is_space s = trim s @ rev (takeWhile is_space (rev (dropWhile is_space s)))"
proof -
  let ?r = "rev (dropWhile is_space s)"
  have "takeWhile is_space ?r @ dropWhile is_space ?r = ?r"
    by (rule takeWhile_dropWhile_id)
  then have "rev (takeWhile is_space ?r @ dropWhile is_space ?r) = rev ?r"
    by (simp only:)
  then have "rev (dropWhile is_space ?r) @ rev (takeWhile is_space ?r) = dropWhile is_space s"
    by (simp only: rev_append rev_rev_ident)
  then show ?thesis
    by (simp only: trim_def)
qed

lemma trim_split:
  "\<exists>a b. s = a @ trim s @ b \<and> list_all is_space a \<and> list_all is_space b"
proof (intro exI conjI)
  have "s = takeWhile is_space s @ dropWhile is_space s"
    by simp
  also note dropWhile_trim
  finally show
    "s = takeWhile is_space s @ trim s @ rev (takeWhile is_space (rev (dropWhile is_space s)))" .
  show "list_all is_space (takeWhile is_space s)"
    by (auto simp add: list_all_iff dest: set_takeWhileD)
  show "list_all is_space (rev (takeWhile is_space (rev (dropWhile is_space s))))"
    by (auto simp add: list_all_iff dest: set_takeWhileD)
qed

lemma trim_ends:
  assumes "trim s \<noteq> []"
  shows "\<not> is_space (hd (trim s))" and "\<not> is_space (last (trim s))"
proof -
  let ?d = "dropWhile is_space s"
  let ?e = "dropWhile is_space (rev ?d)"
  from assms have e: "?e \<noteq> []"
    by (simp add: trim_def)
  then have "\<not> is_space (hd ?e)"
    by (rule hd_dropWhile)
  moreover have "last (trim s) = hd ?e"
    using e by (simp add: trim_def last_rev)
  ultimately show "\<not> is_space (last (trim s))"
    by simp
  have "hd ?d = hd (trim s @ rev (takeWhile is_space (rev ?d)))"
    using dropWhile_trim [of s] by (simp only:)
  with assms have hd: "hd ?d = hd (trim s)"
    by simp
  have "?d \<noteq> []"
  proof
    assume "?d = []"
    then have "trim s = rev (dropWhile is_space (rev []))"
      by (simp only: trim_def)
    with assms show False by simp
  qed
  then have "\<not> is_space (hd ?d)"
    by (rule hd_dropWhile)
  with hd show "\<not> is_space (hd (trim s))"
    by simp
qed

lemma trim_trim: "trim (trim s) = trim s"
proof (cases "trim s = []")
  case True
  with trim_Nil show ?thesis
    by simp
next
  case False
  then have "trim ([] @ trim s @ []) = trim s"
    by (intro trim_delimited trim_ends) simp_all
  then show ?thesis
    by simp
qed

lemma cleanJsonString_unfenced: "\<not> fenced (trim s) \<Longrightarrow> cleanJsonString s = trim s"
  by (simp add: cleanJsonString_def strip_fence_open_def strip_fence_close_def fenced_def trim_trim)

lemma strip_fence_close_marker: "strip_fence_close (y @ ''```'') = y"
  by (simp add: strip_fence_close_def suffix_def)

lemma cleanJsonString_wrapped:
  assumes "list_all is_space lead" and "list_all is_space gap" and "list_all is_space gap'"
    and "list_all is_space trail"
  shows "cleanJsonString (wrapped lead gap content gap' trail) = trim content"
proof -
  let ?inner = "gap @ content @ gap' @ ''```''"
  let ?x = "''```json'' @ ?inner"
  have "trim (lead @ ?x @ trail) = ?x"
    using assms(1,4) by (intro trim_delimited) (simp_all add: tick_not_space)
  then have step1: "trim (wrapped lead gap content gap' trail) = ?x"
    by (simp add: wrapped_def)
  have step2: "strip_fence_open ?x = dropWhile is_space ?inner"
    by (simp add: strip_fence_open_def)
  obtain a b where content: "content = a @ trim content @ b"
    and a: "list_all is_space a" and b: "list_all is_space b"
    using trim_split [of content] by blast
  have unfold: "cleanJsonString (wrapped lead gap content gap' trail)
      = trim (strip_fence_close (dropWhile is_space ?inner))"
    by (simp only: cleanJsonString_def step1 step2)
  show ?thesis
  proof (cases "trim content = []")
    case True
    with content have "content = a @ b"
      by simp
    with a b have "list_all is_space content"
      by simp
    with assms(2,3) have "list_all is_space (gap @ content @ gap')"
      by simp
    then have "dropWhile is_space ((gap @ content @ gap') @ ''```'') = dropWhile is_space ''```''"
      by (rule dropWhile_leading)
    then have "dropWhile is_space ?inner = [] @ ''```''"
      by (simp add: tick_not_space)
    then have "cleanJsonString (wrapped lead gap content gap' trail) = trim []"
      by (simp only: unfold strip_fence_close_marker)
    with True trim_Nil show ?thesis
      by simp
  next
    case False
    then obtain c cs where c: "trim content = c # cs"
      by (cases "trim content") auto
    with trim_ends(1) [OF False] have "\<not> is_space c"
      by simp
    from assms(2) a have "list_all is_space (gap @ a)"
      by simp
    then have "dropWhile is_space ((gap @ a) @ (trim content @ b @ gap' @ ''```''))
        = dropWhile is_space (trim content @ b @ gap' @ ''```'')"
      by (rule dropWhile_leading)
    also have "\<dots> = trim content @ b @ gap' @ ''```''"
      using \<open>\<not> is_space c\<close> by (simp add: c)
    finally have "dropWhile is_space (gap @ (a @ trim content @ b) @ gap' @ ''```'')
        = ([] @ trim content @ (b @ gap')) @ ''```''"
      by simp
    then have "dropWhile is_space ?inner = ([] @ trim content @ (b @ gap')) @ ''```''"
      using content by (simp only:)
    then have "cleanJsonString (wrapped lead gap content gap' trail)
        = trim ([] @ trim content @ (b @ gap'))"
      by (simp only: unfold strip_fence_close_marker)
    also have "\<dots> = trim content"
      using False assms(3) b by (intro trim_delimited trim_ends) simp_all
    finally show ?thesis .
  qed
qed

lemma wrapped_not_empty: "wrapped lead gap content gap' trail \<noteq> []"
  by (simp add: wrapped_def)

text \<open>
  A text that neither starts nor ends with a backquote is not fenced; structured
  content, trimmed, starts and ends with other characters.
\<close>

lemma unfenced_by_ends:
  "hd t \<noteq> CHR 0x60 \<Longrightarrow> last t \<noteq> CHR 0x60 \<Longrightarrow> \<not> fenced t"
  by (auto simp add: fenced_def prefix_def suffix_def)

text \<open>
  C5. \<open>cleanJsonString\<close> takes from a response wrapped in \<open>```json\<close> and \<open>```\<close>
  exactly the two markers and the white space around them and around the content: what
  is parsed is the content, trimmed. When the content is not itself fenced, as no
  structured content is, that is also what the unwrapped response gives, so both are
  parsed alike, and the endpoint answers both responses alike.
\<close>

theorem cleanJsonString_strips_fence:
  "list_all is_space lead \<and> list_all is_space gap \<and> list_all is_space gap' \<and> list_all is_space trail \<Longrightarrow>
   cleanJsonString (wrapped lead gap content gap' trail) = trim content
   \<and> (\<not> fenced (trim content) \<longrightarrow>
        cleanJsonString (wrapped lead gap content gap' trail) = cleanJsonString content
        \<and> JSON_parse (cleanJsonString (wrapped lead gap content gap' trail))
            = JSON_parse (cleanJsonString content)
        \<and> (content \<noteq> [] \<longrightarrow>
             handleAiPrompt (Candidates (Some (wrapped lead gap content gap' trail))) JSON_parse req w
               = handleAiPrompt (Candidates (Some content)) JSON_parse req w))"
proof (intro conjI impI)
  assume "list_all is_space lead \<and> list_all is_space gap \<and> list_all is_space gap' \<and> list_all is_space trail"
  then show stripped: "cleanJsonString (wrapped lead gap content gap' trail) = trim content"
    by (intro cleanJsonString_wrapped) simp_all
  assume "\<not> fenced (trim content)"
  then have "cleanJsonString content = trim content"
    by (rule cleanJsonString_unfenced)
  with stripped show same: "cleanJsonString (wrapped lead gap content gap' trail) = cleanJsonString content"
    by simp
  then show "JSON_parse (cleanJsonString (wrapped lead gap content gap' trail))
            = JSON_parse (cleanJsonString content)"
    by (simp only:)
  assume "content \<noteq> []"
  then show "handleAiPrompt (Candidates (Some (wrapped lead gap content gap' trail))) JSON_parse req w
               = handleAiPrompt (Candidates (Some content)) JSON_parse req w"
    by (cases "body req ''prompt''") (simp_all add: handleAiPrompt_def same wrapped_not_empty Let_def)
qed

theorem cleanJsonString_strips_fence_witness:
  "cleanJsonString (wrapped [] [CHR 0x0A] ''{\"intent\":\"read\"}'' [CHR 0x0A] [])
     = ''{\"intent\":\"read\"}''
   \<and> cleanJsonString (wrapped [] [CHR 0x0A] ''{\"intent\":\"read\"}'' [CHR 0x0A] [])
     = cleanJsonString ''{\"intent\":\"read\"}''
   \<and> handleAiPrompt (Candidates (Some (wrapped [] [CHR 0x0A] ''{\"intent\":\"read\"}'' [CHR 0x0A] [])))
        (\<lambda>s. if s = ''{\"intent\":\"read\"}'' then Some (JObj [(''intent'', JStr ''read'')]) else None)
        (ai_request ''show my tasks'') scenario_world
     = handleAiPrompt (Candidates (Some ''{\"intent\":\"read\"}''))
        (\<lambda>s. if s = ''{\"intent\":\"read\"}'' then Some (JObj [(''intent'', JStr ''read'')]) else None)
        (ai_request ''show my tasks'') scenario_world"
proof -
  have spaces: "list_all is_space [] \<and> list_all is_space [CHR 0x0A] \<and> list_all is_space [CHR 0x0A]
      \<and> list_all is_space []"
    by (simp add: is_space_def)
  have trimmed: "trim ''{\"intent\":\"read\"}'' = ''{\"intent\":\"read\"}''"
    by (simp add: trim_def is_space_def)
  have unfenced: "\<not> fenced (trim ''{\"intent\":\"read\"}'')"
    by (simp add: trimmed fenced_def suffix_to_prefix)
  have filled: "''{\"intent\":\"read\"}'' \<noteq> []"
    by simp
  note fence = cleanJsonString_strips_fence
    [OF spaces, of "''{\"intent\":\"read\"}''"
       "\<lambda>s. if s = ''{\"intent\":\"read\"}'' then Some (JObj [(''intent'', JStr ''read'')]) else None"
       "ai_request ''show my tasks''" scenario_world]
  note unwrapped = fence [THEN conjunct2, THEN mp, OF unfenced]
  from fence [THEN conjunct1] trimmed
  have "cleanJsonString (wrapped [] [CHR 0x0A] ''{\"intent\":\"read\"}'' [CHR 0x0A] [])
          = ''{\"intent\":\"read\"}''"
    by (rule trans)
  moreover note unwrapped [THEN conjunct1]
  moreover note unwrapped [THEN conjunct2, THEN conjunct2, THEN mp, OF filled]
  ultimately show ?thesis
    by (intro conjI)
qed

end
